theory Spec2Isabelle
  imports Complex_Main "HOL-Library.Log_Nat"
begin

section \<open>m4b-joiner: chapter timeline construction and validation\<close>

text \<open>
  A shallow embedding of \<^verbatim>\<open>m4b-joiner.py\<close>. Python strings are lists of code points;
  here a \<^typ>\<open>char\<close> stands for one code point below 256. Every character the program
  treats specially (backslash, \<^verbatim>\<open>=\<close>, \<^verbatim>\<open>;\<close>, \<^verbatim>\<open>#\<close>, \<^verbatim>\<open>|\<close>, \<^verbatim>\<open>'\<close>, \<^verbatim>\<open>/\<close>, \<^verbatim>\<open>.\<close>) is ASCII.
\<close>

subsection \<open>Python string operations used by the program\<close>

definition bslash :: char where
  "bslash = CHR 0x5C"

definition squote :: char where
  "squote = CHR 0x27"

definition dquote :: char where
  "dquote = CHR 0x22"

definition newline :: char where
  "newline = CHR 0x0A"

text \<open>
  The characters \<^verbatim>\<open>str.strip()\<close> removes: the ASCII whitespace 0x09-0x0D, 0x1C-0x1F and
  0x20, and among the code points 0x80-0xFF the two Unicode whitespace characters 0x85
  and 0xA0.
\<close>

definition is_space :: "char \<Rightarrow> bool" where
  "is_space c = (c \<in> {CHR 0x09, CHR 0x0A, CHR 0x0B, CHR 0x0C, CHR 0x0D,
                        CHR 0x1C, CHR 0x1D, CHR 0x1E, CHR 0x1F, CHR 0x20,
                        CHR 0x85, CHR 0xA0})"

text \<open>\<^verbatim>\<open>s.strip()\<close>\<close>

definition strip :: "string \<Rightarrow> string" where
  "strip s = rev (dropWhile is_space (rev (dropWhile is_space s)))"

text \<open>\<^verbatim>\<open>s.split(c)\<close> for a one-character separator: always at least one part.\<close>

fun split :: "char \<Rightarrow> string \<Rightarrow> string list" where
  "split c [] = [[]]"
| "split c (x # xs) =
     (if x = c then [] # split c xs
      else (case split c xs of
              [] \<Rightarrow> [[x]]
            | p # ps \<Rightarrow> (x # p) # ps))"

text \<open>
  \<^verbatim>\<open>s.replace(old, new)\<close> for a one-character \<^verbatim>\<open>old\<close>: every occurrence is replaced,
  left to right; the inserted text is not scanned again.
\<close>

definition replace :: "char \<Rightarrow> string \<Rightarrow> string \<Rightarrow> string" where
  "replace old new s = concat (map (\<lambda>c. if c = old then new else [c]) s)"

subsection \<open>\<^verbatim>\<open>os.path\<close> (POSIX flavour)\<close>

text \<open>
  \<^verbatim>\<open>os.path.join(a, b)\<close> of \<^verbatim>\<open>posixpath\<close>: an absolute \<^verbatim>\<open>b\<close> replaces \<^verbatim>\<open>a\<close>; otherwise
  the parts are joined by one \<^verbatim>\<open>/\<close> unless \<^verbatim>\<open>a\<close> is empty or already ends in one.
\<close>

definition path_join :: "string \<Rightarrow> string \<Rightarrow> string" where
  "path_join a b =
     (if b \<noteq> [] \<and> hd b = CHR ''/'' then b
      else if a = [] \<or> last a = CHR ''/'' then a @ b
      else a @ ''/'' @ b)"

text \<open>
  \<^verbatim>\<open>os.path.splitext(p)\<close> of \<^verbatim>\<open>posixpath\<close> (\<^verbatim>\<open>genericpath._splitext\<close>): the extension
  starts at the last dot of the last path component, unless only dots precede it
  there. \<open>rfind\<close> is \<^verbatim>\<open>str.rfind\<close> for a single character, \<open>-1\<close> when absent.
\<close>

definition rfind :: "char \<Rightarrow> string \<Rightarrow> int" where
  "rfind c p =
     (if c \<in> set p then int (length p) - 1 - int (length (takeWhile (\<lambda>x. x \<noteq> c) (rev p)))
      else - 1)"

definition splitext :: "string \<Rightarrow> string \<times> string" where
  "splitext p =
     (let sepIndex = rfind CHR ''/'' p;
          dotIndex = rfind CHR ''.'' p
      in if dotIndex > sepIndex \<and>
            list_ex (\<lambda>c. c \<noteq> CHR ''.'')
              (take (nat (dotIndex - (sepIndex + 1))) (drop (nat (sepIndex + 1)) p))
         then (take (nat dotIndex) p, drop (nat dotIndex) p)
         else (p, []))"

subsection \<open>Escaping of metadata values\<close>

text \<open>
  \<^verbatim>\<open>escape_metadata\<close>: four replacements in sequence, the backslash first.
\<close>

definition escape_metadata :: "string \<Rightarrow> string" where
  "escape_metadata text =
     replace CHR ''#'' [bslash, CHR ''#'']
       (replace CHR '';'' [bslash, CHR '';'']
         (replace CHR ''='' [bslash, CHR ''='']
           (replace bslash [bslash, bslash] text)))"

text \<open>
  The reader's side of the escaping rule, following the specification's words (it is
  not part of the program): a backslash quotes the character after it.
\<close>

fun spec_unescape_metadata :: "string \<Rightarrow> string" where
  "spec_unescape_metadata [] = []"
| "spec_unescape_metadata [c] = [c]"
| "spec_unescape_metadata (c # d # r) =
     (if c = bslash then d # spec_unescape_metadata r
      else c # spec_unescape_metadata (d # r))"

subsection \<open>Order lines\<close>

text \<open>
  The head of the loop body of \<^verbatim>\<open>main\<close>: an order line, already stripped and not
  blank, gives the file name and the chapter title.
\<close>

definition parse_line :: "string \<Rightarrow> string \<times> string" where
  "parse_line line =
     (let parts = split CHR ''|'' line;
          filename = strip (hd parts);
          chapter_title = (if length parts > 1 then strip (parts ! 1)
                           else fst (splitext filename))
      in (filename, chapter_title))"

text \<open>
  The parser as the specification words it: the line is cut at its first \<^verbatim>\<open>|\<close>, and
  everything after that separator is the title.
\<close>

definition spec_parse_line :: "string \<Rightarrow> string \<times> string" where
  "spec_parse_line line =
     (let filename = strip (takeWhile (\<lambda>c. c \<noteq> CHR ''|'') line)
      in if CHR ''|'' \<in> set line
         then (filename, strip (tl (dropWhile (\<lambda>c. c \<noteq> CHR ''|'') line)))
         else (filename, fst (splitext filename)))"

subsection \<open>Python floats\<close>

text \<open>
  A finite \<^verbatim>\<open>float\<close> is the real number it denotes. An arithmetic operation returns the
  exact result rounded to the nearest number with a 53-bit significand, ties to the
  even significand (IEEE 754 binary64). The exponent range is not modelled: no overflow
  to infinity, no subnormal numbers, no NaN.
\<close>

definition round_half_even :: "real \<Rightarrow> int" where
  "round_half_even x =
     (let f = \<lfloor>x\<rfloor>; r = x - of_int f
      in if r < 1 / 2 then f
         else if r > 1 / 2 then f + 1
         else if even f then f else f + 1)"

text \<open>The binary exponent \<open>e\<close> of a non-zero \<open>x\<close>: \<open>2 ^ e \<le> \<bar>x\<bar> < 2 ^ (e + 1)\<close>.\<close>

definition float_exponent :: "real \<Rightarrow> int" where
  "float_exponent x =
     (if 1 \<le> \<bar>x\<bar> then bitlen \<lfloor>\<bar>x\<bar>\<rfloor> - 1
      else - bitlen (\<lceil>1 / \<bar>x\<bar>\<rceil> - 1))"

definition float_round :: "real \<Rightarrow> real" where
  "float_round x =
     (if x = 0 then 0
      else let ulp = 2 powi (float_exponent x - 52)
           in of_int (round_half_even (x / ulp)) * ulp)"

text \<open>\<^verbatim>\<open>a * b\<close> on floats.\<close>

definition float_mul :: "real \<Rightarrow> real \<Rightarrow> real" where
  "float_mul a b = float_round (a * b)"

text \<open>\<^verbatim>\<open>int(x)\<close> of a finite float: the fractional part is dropped, towards zero.\<close>

definition py_int :: "real \<Rightarrow> int" where
  "py_int x = (if x < 0 then - \<lfloor>- x\<rfloor> else \<lfloor>x\<rfloor>)"

text \<open>\<^verbatim>\<open>str(n)\<close> of an integer: decimal digits, a minus sign when negative.\<close>

fun str_nat :: "nat \<Rightarrow> string" where
  "str_nat n =
     (if n < 10 then [char_of (48 + n)]
      else str_nat (n div 10) @ [char_of (48 + n mod 10)])"

definition str_int :: "int \<Rightarrow> string" where
  "str_int i = (if i < 0 then CHR ''-'' # str_nat (nat (- i)) else str_nat (nat i))"

subsection \<open>What the program prints\<close>

text \<open>
  One constructor for each event the program reports on standard output, with the values
  the printed text names. Verbose logging and the progress bar are left out.
\<close>

datatype parse_problem = InvalidJson | FieldMissingOrInvalid | NoAudioStream

datatype message =
    DependencyNotFound
  | DependencyFailedToRun
  | InputDirMissing string
  | OrderFileMissing string
  | CoverNotFound string
  | ReadingOrderFile
  | ErrorReadingOrderFile
  | FoundFiles nat
  | WarningNotFound string
  | ErrorGettingInfo string
  | ErrorParsingInfo string parse_problem
  | SampleRateMismatch string int int
  | ChannelMismatch string int int
  | ErrorProcessingFiles
  | NoValidFiles
  | GeneratingMetadata
  | JoiningFiles
  | EmbeddingCover string
  | Success string
  | ErrorRunningFfmpeg int

subsection \<open>Probing a file: \<^verbatim>\<open>get_file_info\<close>\<close>

record AudioInfo =
  duration :: real
  sample_rate :: int
  channels :: int

text \<open>
  What one run of \<^verbatim>\<open>ffprobe\<close> gives \<^verbatim>\<open>get_file_info\<close>:
  \<^item> \<open>ToolFailed\<close>: a non-zero exit status (\<^verbatim>\<open>CalledProcessError\<close>);
  \<^item> \<open>BadJson\<close>: output that \<^verbatim>\<open>json.loads\<close> rejects;
  \<^item> \<open>Unexpected\<close>: any exception \<^verbatim>\<open>get_file_info\<close> does not catch (a \<^verbatim>\<open>TypeError\<close> on
    a JSON value of the wrong shape);
  \<^item> \<open>Json d streams\<close>: \<open>d\<close> is \<^verbatim>\<open>float(data['format']['duration'])\<close>, \<open>None\<close> when the
    key is missing or its text is no number; \<open>streams\<close> is \<^verbatim>\<open>data.get('streams')\<close> (empty
    when absent), each stream with its \<^verbatim>\<open>int(stream['sample_rate'])\<close> and
    \<^verbatim>\<open>int(stream['channels'])\<close>, \<open>None\<close> when missing or no number.
\<close>

datatype probe_output =
    ToolFailed
  | BadJson
  | Unexpected
  | Json "real option" "(int option \<times> int option) list"

text \<open>
  \<open>SysExit m\<close>: the function has printed \<open>m\<close> and called \<^verbatim>\<open>sys.exit(1)\<close>; \<open>Raised\<close>: an
  exception leaves the function.
\<close>

datatype failure = SysExit message | Raised

definition get_file_info :: "(string \<Rightarrow> probe_output) \<Rightarrow> string \<Rightarrow> failure + AudioInfo" where
  "get_file_info run_ffprobe file_path =
     (case run_ffprobe file_path of
        ToolFailed \<Rightarrow> Inl (SysExit (ErrorGettingInfo file_path))
      | BadJson \<Rightarrow> Inl (SysExit (ErrorParsingInfo file_path InvalidJson))
      | Unexpected \<Rightarrow> Inl Raised
      | Json d streams \<Rightarrow>
          (case d of
             None \<Rightarrow> Inl (SysExit (ErrorParsingInfo file_path FieldMissingOrInvalid))
           | Some dur \<Rightarrow>
               (case streams of
                  [] \<Rightarrow> Inl (SysExit (ErrorParsingInfo file_path NoAudioStream))
                | stream # _ \<Rightarrow>
                    (case fst stream of
                       None \<Rightarrow> Inl (SysExit (ErrorParsingInfo file_path FieldMissingOrInvalid))
                     | Some rate \<Rightarrow>
                         (case snd stream of
                            None \<Rightarrow>
                              Inl (SysExit (ErrorParsingInfo file_path FieldMissingOrInvalid))
                          | Some chans \<Rightarrow>
                              Inr \<lparr>duration = dur, sample_rate = rate, channels = chans\<rparr>)))))"

subsection \<open>The environment of a run\<close>

datatype dependencies = NotFound | FailedToRun | Available

text \<open>
  The join step as the external tool sees it: the command line and the two intermediate
  files it reads.
\<close>

record join_call =
  cmd :: "string list"
  manifest :: "string list"
  metadata :: "string list"

text \<open>
  Everything outside the program: the result of \<^verbatim>\<open>check_dependencies\<close>, the file system
  before the run (\<^verbatim>\<open>os.path.isdir\<close>, \<^verbatim>\<open>os.path.isfile\<close>, the lines \<^verbatim>\<open>readlines\<close> returns or
  \<open>None\<close> when reading raises), the probing tool and the exit status of the muxing tool.
  \<open>resolve\<close> gives the file-system entry a path names, as \<^verbatim>\<open>os.path.realpath\<close> would: two
  spellings of one file (\<^verbatim>\<open>in/x\<close> and \<^verbatim>\<open>in/./x\<close>, a link and its target) resolve to the same
  entry. Writing the two intermediate files is taken to succeed.
\<close>

record env =
  deps :: dependencies
  isdir :: "string \<Rightarrow> bool"
  isfile :: "string \<Rightarrow> bool"
  resolve :: "string \<Rightarrow> string"
  readlines :: "string \<Rightarrow> string list option"
  ffprobe :: "string \<Rightarrow> probe_output"
  ffmpeg :: "join_call \<Rightarrow> int"

record args =
  input_dir :: string
  order_file :: string
  output_file :: string
  verbose :: bool
  cover :: "string option"

subsection \<open>The loop of \<^verbatim>\<open>main\<close> over the order lines\<close>

record Chapter =
  title :: string
  start_time :: int
  end_time :: int

text \<open>
  The variables the loop updates, the text written to the manifest so far (one element
  for each \<^verbatim>\<open>write\<close>) and the messages printed so far.
\<close>

record loop_state =
  current_time_ns :: int
  analysis_ref :: "AudioInfo option"
  chapters :: "Chapter list"
  concat_file :: "string list"
  printed :: "message list"

definition concat_list_path :: "string \<Rightarrow> string" where
  "concat_list_path dir = path_join dir ''files_to_concat.txt''"

definition metadata_path :: "string \<Rightarrow> string" where
  "metadata_path dir = path_join dir ''metadata.txt''"

text \<open>
  \<^verbatim>\<open>os.path.isfile\<close> while the loop runs. Line 186 has opened the manifest for writing, so
  the entry it names is a file now, whatever was there before, and under every spelling
  of its path; every other path is as it was before the run.
\<close>

definition isfile_in_loop :: "env \<Rightarrow> string \<Rightarrow> string \<Rightarrow> bool" where
  "isfile_in_loop e dir p = (resolve e p = resolve e (concat_list_path dir) \<or> isfile e p)"

text \<open>Lines 221-236: the chapter of a validated file and its manifest line.\<close>

definition add_chapter :: "loop_state \<Rightarrow> string \<Rightarrow> string \<Rightarrow> AudioInfo \<Rightarrow> loop_state" where
  "add_chapter st chapter_title file_path info =
     (let duration_ns = py_int (float_mul (duration info) 1000000000);
          start_time' = current_time_ns st;
          end_time' = current_time_ns st + duration_ns;
          safe_path = replace bslash ''/'' file_path
      in st\<lparr>current_time_ns := end_time',
            chapters := chapters st @
              [\<lparr>title = chapter_title, start_time = start_time', end_time = end_time'\<rparr>],
            concat_file := concat_file st @
              [''file '' @ [squote] @ safe_path @ [squote, newline]]\<rparr>)"

text \<open>
  One iteration. \<open>Inl st\<close>: the run ends here with \<^verbatim>\<open>sys.exit(1)\<close>, in state \<open>st\<close>; an
  exception that \<^verbatim>\<open>get_file_info\<close> lets through reaches the handler around the loop,
  which prints and exits too. \<open>Inr st\<close>: the loop goes on.
\<close>

definition process_line :: "env \<Rightarrow> string \<Rightarrow> loop_state \<Rightarrow> string \<Rightarrow> loop_state + loop_state" where
  "process_line e dir st line =
     (let filename = fst (parse_line line);
          chapter_title = snd (parse_line line);
          file_path = path_join dir filename
      in if \<not> isfile_in_loop e dir file_path
         then Inr (st\<lparr>printed := printed st @ [WarningNotFound filename]\<rparr>)
         else
           (case get_file_info (ffprobe e) file_path of
              Inl (SysExit m) \<Rightarrow> Inl (st\<lparr>printed := printed st @ [m]\<rparr>)
            | Inl Raised \<Rightarrow> Inl (st\<lparr>printed := printed st @ [ErrorProcessingFiles]\<rparr>)
            | Inr info \<Rightarrow>
                (case analysis_ref st of
                   None \<Rightarrow>
                     Inr (add_chapter (st\<lparr>analysis_ref := Some info\<rparr>)
                            chapter_title file_path info)
                 | Some ref \<Rightarrow>
                     if sample_rate info \<noteq> sample_rate ref
                     then Inl (st\<lparr>printed := printed st @
                            [SampleRateMismatch filename (sample_rate ref) (sample_rate info)]\<rparr>)
                     else if channels info \<noteq> channels ref
                     then Inl (st\<lparr>printed := printed st @
                            [ChannelMismatch filename (channels ref) (channels info)]\<rparr>)
                     else Inr (add_chapter st chapter_title file_path info))))"

fun process_lines :: "env \<Rightarrow> string \<Rightarrow> loop_state \<Rightarrow> string list \<Rightarrow> loop_state + loop_state" where
  "process_lines e dir st [] = Inr st"
| "process_lines e dir st (line # rest) =
     (case process_line e dir st line of
        Inl st' \<Rightarrow> Inl st'
      | Inr st' \<Rightarrow> process_lines e dir st' rest)"

subsection \<open>The metadata file and the join command\<close>

text \<open>The text \<^verbatim>\<open>main\<close> writes to the metadata file, one element for each \<^verbatim>\<open>write\<close>.\<close>

definition chapter_block :: "Chapter \<Rightarrow> string list" where
  "chapter_block chapter =
     [''[CHAPTER]'' @ [newline],
      ''TIMEBASE=1/1000000000'' @ [newline],
      ''START='' @ str_int (start_time chapter) @ [newline],
      ''END='' @ str_int (end_time chapter) @ [newline],
      ''title='' @ escape_metadata (title chapter) @ [newline]]"

definition metadata_text :: "Chapter list \<Rightarrow> string list" where
  "metadata_text chs = ('';FFMETADATA1'' @ [newline]) # concat (map chapter_block chs)"

text \<open>
  \<^verbatim>\<open>if cover_image_path\<close>: the option was given and its value is not the empty string.
\<close>

definition cover_given :: "args \<Rightarrow> bool" where
  "cover_given a = (case cover a of None \<Rightarrow> False | Some c \<Rightarrow> c \<noteq> [])"

definition ffmpeg_cmd :: "args \<Rightarrow> string list" where
  "ffmpeg_cmd a =
     [''ffmpeg'', ''-f'', ''concat'', ''-safe'', ''0'',
      ''-i'', concat_list_path (input_dir a),
      ''-i'', metadata_path (input_dir a)]
     @ (if cover_given a then [''-i'', the (cover a)] else [])
     @ [''-map_metadata'', ''1'', ''-c'', ''copy'', ''-map'', ''0:a'']
     @ (if cover_given a
        then [''-map'', ''2:v'', ''-c:v'', ''copy'', ''-disposition:v:0'', ''attached_pic'',
              ''-metadata:s:v'', ''title='' @ [dquote] @ ''Album cover'' @ [dquote],
              ''-metadata:s:v'', ''comment='' @ [dquote] @ ''Cover (front)'' @ [dquote]]
        else [])
     @ [''-f'', ''mp4'', ''-y'', output_file a]"

subsection \<open>\<^verbatim>\<open>main\<close>\<close>

text \<open>
  What a run leaves behind: the exit status of the process, the messages printed, the
  two intermediate files as they are on disk when the process ends (\<open>None\<close>: this run
  leaves no such file) and the call of the muxing tool (\<open>None\<close>: it was never invoked).
\<close>

record run =
  exit_code :: int
  stdout :: "message list"
  concat_list_left :: "string list option"
  metadata_left :: "string list option"
  join :: "join_call option"

text \<open>A run that ends in \<^verbatim>\<open>sys.exit(1)\<close> before the manifest is opened.\<close>

definition early_exit :: "message list \<Rightarrow> run" where
  "early_exit ms =
     \<lparr>exit_code = 1, stdout = ms, concat_list_left = None, metadata_left = None,
      join = None\<rparr>"

definition initial_state :: "nat \<Rightarrow> loop_state" where
  "initial_state total_files =
     \<lparr>current_time_ns = 0, analysis_ref = None, chapters = [], concat_file = [],
      printed = [ReadingOrderFile, FoundFiles total_files]\<rparr>"

definition main :: "env \<Rightarrow> args \<Rightarrow> run" where
  "main e a =
     (if deps e = NotFound then early_exit [DependencyNotFound]
      else if deps e = FailedToRun then early_exit [DependencyFailedToRun]
      else if \<not> isdir e (input_dir a) then early_exit [InputDirMissing (input_dir a)]
      else if \<not> isfile e (order_file a) then early_exit [OrderFileMissing (order_file a)]
      else if cover_given a \<and> \<not> isfile e (the (cover a))
      then early_exit [CoverNotFound (the (cover a))]
      else
        (case readlines e (order_file a) of
           None \<Rightarrow> early_exit [ReadingOrderFile, ErrorReadingOrderFile]
         | Some lines \<Rightarrow>
             (let valid_lines = map strip (filter (\<lambda>line. strip line \<noteq> []) lines)
              in case process_lines e (input_dir a) (initial_state (length valid_lines))
                        valid_lines of
                   Inl st \<Rightarrow>
                     \<lparr>exit_code = 1, stdout = printed st,
                      concat_list_left = Some (concat_file st), metadata_left = None,
                      join = None\<rparr>
                 | Inr st \<Rightarrow>
                     if chapters st = []
                     then \<lparr>exit_code = 1, stdout = printed st @ [NoValidFiles],
                           concat_list_left = Some (concat_file st), metadata_left = None,
                           join = None\<rparr>
                     else
                       (let call = \<lparr>cmd = ffmpeg_cmd a, manifest = concat_file st,
                                    metadata = metadata_text (chapters st)\<rparr>;
                            status = ffmpeg e call
                        in \<lparr>exit_code = 0,
                            stdout = printed st @ [GeneratingMetadata, JoiningFiles]
                              @ (if cover_given a then [EmbeddingCover (the (cover a))] else [])
                              @ [if status = 0 then Success (output_file a)
                                 else ErrorRunningFfmpeg status],
                            concat_list_left = None, metadata_left = None,
                            join = Some call\<rparr>))))"

subsection \<open>Example runs\<close>

text \<open>
  A small environment for concrete runs: the input directory \<^verbatim>\<open>in\<close>, the order file
  \<^verbatim>\<open>order.txt\<close> with the given lines, the given files with what the probing tool reports for
  each (it fails on any other path), and a muxing tool that exits with the given status.
  Every path names an entry of its own, but for \<^verbatim>\<open>in/./files_to_concat.txt\<close>, a second
  spelling of \<^verbatim>\<open>in/files_to_concat.txt\<close>.
\<close>

definition example_env :: "(string \<times> probe_output) list \<Rightarrow> string list \<Rightarrow> int \<Rightarrow> env" where
  "example_env files order_lines status =
     \<lparr>deps = Available,
      isdir = (\<lambda>p. p = ''in''),
      isfile = (\<lambda>p. p = ''order.txt'' \<or> map_of files p \<noteq> None),
      resolve = (\<lambda>p. if p = ''in/./files_to_concat.txt'' then ''in/files_to_concat.txt''
                     else p),
      readlines = (\<lambda>p. if p = ''order.txt'' then Some order_lines else None),
      ffprobe = (\<lambda>p. case map_of files p of None \<Rightarrow> ToolFailed | Some r \<Rightarrow> r),
      ffmpeg = (\<lambda>call. status)\<rparr>"

definition example_args :: args where
  "example_args =
     \<lparr>input_dir = ''in'', order_file = ''order.txt'', output_file = ''book.m4b'',
      verbose = False, cover = None\<rparr>"

text \<open>What the probing tool reports for a sound file: duration, sample rate, channels.\<close>

definition audio :: "real \<Rightarrow> int \<Rightarrow> int \<Rightarrow> probe_output" where
  "audio d rate chans = Json (Some d) [(Some rate, Some chans)]"

subsection \<open>Vocabulary of the statements\<close>

text \<open>The escaping of one character: what the four replacements together do to it.\<close>

definition escape_char :: "char \<Rightarrow> string" where
  "escape_char c =
     (if c = bslash \<or> c = CHR ''='' \<or> c = CHR '';'' \<or> c = CHR ''#'' then [bslash, c]
      else [c])"

text \<open>
  The test of line 197 for an order line: its path is a file when the test runs, either
  because it was one before the run or because it names the manifest.
\<close>

definition found_line :: "env \<Rightarrow> string \<Rightarrow> string \<Rightarrow> bool" where
  "found_line e dir line = isfile_in_loop e dir (path_join dir (fst (parse_line line)))"

text \<open>A chapter list that starts at \<open>t\<close> and has neither gap nor overlap.\<close>

fun contiguous_from :: "int \<Rightarrow> Chapter list \<Rightarrow> bool" where
  "contiguous_from t [] = True"
| "contiguous_from t (c # cs) = (start_time c = t \<and> contiguous_from (end_time c) cs)"

definition timeline_end :: "int \<Rightarrow> Chapter list \<Rightarrow> int" where
  "timeline_end t cs = (if cs = [] then t else end_time (last cs))"

text \<open>The invariant of the loop: the cursor is the end of a contiguous timeline.\<close>

definition timeline_inv :: "loop_state \<Rightarrow> bool" where
  "timeline_inv st \<longleftrightarrow>
     contiguous_from 0 (chapters st) \<and> current_time_ns st = timeline_end 0 (chapters st)"

text \<open>A line of the manifest for a path, as lines 235-236 write it.\<close>

definition manifest_line :: "string \<Rightarrow> string" where
  "manifest_line p = ''file '' @ [squote] @ p @ [squote, newline]"

subsection \<open>Example inputs\<close>

text \<open>Three mono files of 10, 2 and 7 seconds at 44100 Hz, and a fourth of 3 seconds.\<close>

definition three_files :: "(string \<times> probe_output) list" where
  "three_files =
     [(''in/a.mp3'', audio 10 44100 1), (''in/b.mp3'', audio 2 44100 1),
      (''in/c.mp3'', audio 7 44100 1)]"




text \<open>A file name with a single quote and a backslash in it.\<close>

definition quoted_name :: string where
  "quoted_name = ''it'' @ [squote] @ ''s'' @ [bslash] @ ''1.mp3''"

section \<open>Properties\<close>

subsection \<open>Strings\<close>

lemma replace_concat_map:
  "replace old new (concat (map f s)) = concat (map (\<lambda>c. replace old new (f c)) s)"
  by (induction s) (simp_all add: replace_def)

lemma replace_as_concat_map: "replace old new s = concat (map (\<lambda>c. replace old new [c]) s)"
  by (simp add: replace_def)

lemma replace_char_map: "replace old [new] s = map (\<lambda>c. if c = old then new else c) s"
  by (induction s) (simp_all add: replace_def)

lemma split_first:
  "split c s = takeWhile (\<lambda>x. x \<noteq> c) s #
     (if c \<in> set s then split c (tl (dropWhile (\<lambda>x. x \<noteq> c) s)) else [])"
  by (induction s) auto

lemma split_not_Nil: "split c s \<noteq> []"
  by (subst split_first) simp

lemma hd_split: "hd (split c s) = takeWhile (\<lambda>x. x \<noteq> c) s"
  by (subst split_first) simp

lemma length_split_gt1: "Suc 0 < length (split c s) \<longleftrightarrow> c \<in> set s"
proof -
  have "0 < length (split c t)" for t using split_not_Nil [of c t] by simp
  then show ?thesis by (subst split_first) simp
qed

lemma split_second:
  "c \<in> set s \<Longrightarrow>
   split c s ! Suc 0 = takeWhile (\<lambda>x. x \<noteq> c) (tl (dropWhile (\<lambda>x. x \<noteq> c) s))"
  by (subst split_first) (simp add: hd_split [symmetric] hd_conv_nth split_not_Nil)

subsection \<open>Escaping\<close>

lemma escape_metadata_chars: "escape_metadata s = concat (map escape_char s)"
proof -
  have step: "replace CHR ''#'' [bslash, CHR ''#'']
       (replace CHR '';'' [bslash, CHR '';'']
         (replace CHR ''='' [bslash, CHR ''='']
           (replace bslash [bslash, bslash] [c]))) = escape_char c" for c
    by (simp add: replace_def escape_char_def bslash_def)
  show ?thesis
    unfolding escape_metadata_def
    apply (subst replace_as_concat_map [of bslash])
    apply (simp only: replace_concat_map)
    apply (simp only: step)
    done
qed

lemma unescape_escape_char:
  "spec_unescape_metadata (escape_char c @ r) = c # spec_unescape_metadata r"
  by (cases r) (auto simp: escape_char_def bslash_def)

lemma unescape_escape_chars: "spec_unescape_metadata (concat (map escape_char s)) = s"
  by (induction s) (simp_all add: unescape_escape_char)

text \<open>
  C5. For every chapter title, whatever characters it holds, undoing the escapes of
  \<^verbatim>\<open>escape_metadata\<close> (a backslash quotes the next character) gives the title back, and
  \<^verbatim>\<open>escape_metadata\<close> is injective.
\<close>

theorem escape_metadata_round_trip:
  "spec_unescape_metadata (escape_metadata t) = t \<and> inj escape_metadata"
proof -
  have rt: "spec_unescape_metadata (escape_metadata s) = s" for s
    by (simp add: escape_metadata_chars unescape_escape_chars)
  have "inj escape_metadata"
    by (rule inj_on_inverseI [where g = spec_unescape_metadata]) (rule rt)
  with rt show ?thesis by simp
qed

subsection \<open>Order lines\<close>

text \<open>
  C6, as stated: the title is everything after the first \<^verbatim>\<open>|\<close>. It fails for a line with
  two separators: the program takes \<^verbatim>\<open>parts[1]\<close>, the text between the first and the second
  one.
\<close>

theorem parse_line_counterexample:
  "parse_line ''a.mp3|One|Two'' = (''a.mp3'', ''One'') \<and>
   spec_parse_line ''a.mp3|One|Two'' = (''a.mp3'', ''One|Two'')"
  by code_simp

text \<open>
  C6, amended. For every order line the file name is the trimmed text before the first
  \<^verbatim>\<open>|\<close>. When the line has a \<^verbatim>\<open>|\<close>, the title is the trimmed text between the first
  \<^verbatim>\<open>|\<close> and the second one (or the end of the line when there is no second one); what
  follows a second \<^verbatim>\<open>|\<close> is dropped. When the line has no \<^verbatim>\<open>|\<close>, the title is the file
  name without its extension.
\<close>

theorem parse_line_second_separator:
  "fst (parse_line line) = strip (takeWhile (\<lambda>c. c \<noteq> CHR ''|'') line) \<and>
   snd (parse_line line) =
     (if CHR ''|'' \<in> set line
      then strip (takeWhile (\<lambda>c. c \<noteq> CHR ''|'') (tl (dropWhile (\<lambda>c. c \<noteq> CHR ''|'') line)))
      else fst (splitext (fst (parse_line line))))"
  by (simp add: parse_line_def Let_def hd_split length_split_gt1 split_second)

subsection \<open>Evaluation of the examples\<close>

lemma parse_line_a: "parse_line ''a.mp3'' = (''a.mp3'', ''a'')" by code_simp
lemma parse_line_b: "parse_line ''b.mp3|Two'' = (''b.mp3'', ''Two'')" by code_simp
lemma parse_line_c: "parse_line ''c.mp3'' = (''c.mp3'', ''c'')" by code_simp
lemma parse_line_d: "parse_line ''d.mp3|Four'' = (''d.mp3'', ''Four'')" by code_simp
lemma parse_line_gone: "parse_line ''gone.mp3'' = (''gone.mp3'', ''gone'')" by code_simp



lemma parse_line_quoted:
  "parse_line quoted_name = (quoted_name, ''it'' @ [squote] @ ''s'' @ [bslash] @ ''1'')"
  by code_simp

lemma float_mul_10: "float_mul 10 1000000000 = 10000000000" by code_simp
lemma float_mul_2: "float_mul 2 1000000000 = 2000000000" by code_simp
lemma float_mul_7: "float_mul 7 1000000000 = 7000000000" by code_simp
lemma float_mul_3: "float_mul 3 1000000000 = 3000000000" by code_simp
lemma float_mul_frac: "float_mul (3 / 2048) 1000000000 = 5859375 / 4" by code_simp
lemma float_mul_half: "float_mul (3 / 2) 1000000000 = 1500000000" by code_simp

lemma float_mul_0: "float_mul 0 1000000000 = 0"
  by (simp add: float_mul_def float_round_def)

lemmas parse_facts = parse_line_a parse_line_b parse_line_c parse_line_d parse_line_gone

lemmas float_facts = float_mul_10 float_mul_2 float_mul_7 float_mul_3 float_mul_frac
  float_mul_half float_mul_0

lemma example_env_sel:
  "deps (example_env files order_lines status) = Available"
  "isdir (example_env files order_lines status) p = (p = ''in'')"
  "isfile (example_env files order_lines status) p =
     (p = ''order.txt'' \<or> map_of files p \<noteq> None)"
  "resolve (example_env files order_lines status) p =
     (if p = ''in/./files_to_concat.txt'' then ''in/files_to_concat.txt'' else p)"
  "readlines (example_env files order_lines status) p =
     (if p = ''order.txt'' then Some order_lines else None)"
  "ffprobe (example_env files order_lines status) p =
     (case map_of files p of None \<Rightarrow> ToolFailed | Some r \<Rightarrow> r)"
  "ffmpeg (example_env files order_lines status) call = status"
  by (simp_all add: example_env_def)

lemmas loop_defs = process_line_def path_join_def isfile_in_loop_def concat_list_path_def
  example_env_sel get_file_info_def audio_def add_chapter_def py_int_def initial_state_def
  replace_def bslash_def found_line_def manifest_line_def

lemma three_run:
  "process_lines (example_env three_files [] 0) ''in'' (initial_state 3)
     [''a.mp3'', ''b.mp3|Two'', ''c.mp3''] =
   Inr \<lparr>current_time_ns = 19000000000,
        analysis_ref = Some \<lparr>duration = 10, sample_rate = 44100, channels = 1\<rparr>,
        chapters = [\<lparr>title = ''a'', start_time = 0, end_time = 10000000000\<rparr>,
                    \<lparr>title = ''Two'', start_time = 10000000000, end_time = 12000000000\<rparr>,
                    \<lparr>title = ''c'', start_time = 12000000000, end_time = 19000000000\<rparr>],
        concat_file = [manifest_line ''in/a.mp3'', manifest_line ''in/b.mp3'',
                       manifest_line ''in/c.mp3''],
        printed = [ReadingOrderFile, FoundFiles 3]\<rparr>"
  by (simp add: loop_defs three_files_def parse_facts float_facts)



lemma half_step:
  "process_line (example_env [(''in/a.mp3'', audio (3 / 2) 44100 2)] [] 0) ''in''
     (initial_state 1) ''a.mp3'' =
   Inr \<lparr>current_time_ns = 1500000000,
        analysis_ref = Some \<lparr>duration = 3 / 2, sample_rate = 44100, channels = 2\<rparr>,
        chapters = [\<lparr>title = ''a'', start_time = 0, end_time = 1500000000\<rparr>],
        concat_file = [manifest_line ''in/a.mp3''],
        printed = [ReadingOrderFile, FoundFiles 1]\<rparr>"
  by (simp add: loop_defs parse_facts float_facts)

lemma half_found:
  "found_line (example_env [(''in/a.mp3'', audio (3 / 2) 44100 2)] [] 0) ''in'' ''a.mp3''"
  by (simp add: loop_defs parse_facts)

lemma quoted_run:
  "process_lines (example_env [(''in/'' @ quoted_name, audio 2 44100 1)] [] 0) ''in''
     (initial_state 1) [quoted_name] =
   Inr \<lparr>current_time_ns = 2000000000,
        analysis_ref = Some \<lparr>duration = 2, sample_rate = 44100, channels = 1\<rparr>,
        chapters = [\<lparr>title = ''it'' @ [squote] @ ''s'' @ [bslash] @ ''1'', start_time = 0,
                     end_time = 2000000000\<rparr>],
        concat_file =
          [''file '' @ [squote] @ ''in/it'' @ [squote] @ ''s/1.mp3'' @ [squote, newline]],
        printed = [ReadingOrderFile, FoundFiles 1]\<rparr>"
  by (simp add: loop_defs parse_line_quoted float_facts)
     (simp add: quoted_name_def squote_def bslash_def)

lemma one_run:
  "process_lines (example_env [(''in/a.mp3'', audio 10 44100 1)] order_lines status) ''in''
     (initial_state n) [''a.mp3''] =
   Inr \<lparr>current_time_ns = 10000000000,
        analysis_ref = Some \<lparr>duration = 10, sample_rate = 44100, channels = 1\<rparr>,
        chapters = [\<lparr>title = ''a'', start_time = 0, end_time = 10000000000\<rparr>],
        concat_file = [manifest_line ''in/a.mp3''],
        printed = [ReadingOrderFile, FoundFiles n]\<rparr>"
  by (simp add: loop_defs parse_facts float_facts)

lemma mismatch_run:
  "process_lines
     (example_env [(''in/a.mp3'', audio 10 44100 1), (''in/b.mp3'', audio 2 48000 1)]
        order_lines status) ''in'' (initial_state n) [''a.mp3'', ''b.mp3|Two''] =
   Inl \<lparr>current_time_ns = 10000000000,
        analysis_ref = Some \<lparr>duration = 10, sample_rate = 44100, channels = 1\<rparr>,
        chapters = [\<lparr>title = ''a'', start_time = 0, end_time = 10000000000\<rparr>],
        concat_file = [manifest_line ''in/a.mp3''],
        printed = [ReadingOrderFile, FoundFiles n,
                   SampleRateMismatch ''b.mp3'' 44100 48000]\<rparr>"
  by (simp add: loop_defs parse_facts float_facts)

subsection \<open>The loop\<close>

lemma py_int_trunc: "py_int x = (if 0 \<le> x then \<lfloor>x\<rfloor> else \<lceil>x\<rceil>)"
  by (simp add: py_int_def ceiling_def)

lemma contiguous_from_snoc:
  "contiguous_from t (cs @ [c]) \<longleftrightarrow> contiguous_from t cs \<and> start_time c = timeline_end t cs"
  by (induction cs arbitrary: t) (auto simp: timeline_end_def)

lemma contiguous_from_nth:
  "contiguous_from t cs \<Longrightarrow> Suc i < length cs \<Longrightarrow>
   end_time (cs ! i) = start_time (cs ! Suc i)"
proof (induction cs arbitrary: t i)
  case Nil
  then show ?case by simp
next
  case (Cons c cs)
  show ?case
  proof (cases i)
    case 0
    with Cons.prems show ?thesis by (cases cs) auto
  next
    case (Suc j)
    with Cons show ?thesis by auto
  qed
qed

lemma contiguous_from_hd: "contiguous_from t cs \<Longrightarrow> cs \<noteq> [] \<Longrightarrow> start_time (hd cs) = t"
  by (cases cs) auto

lemma add_chapter_simps:
  "current_time_ns (add_chapter st t p info) =
     current_time_ns st + py_int (float_mul (duration info) 1000000000)"
  "chapters (add_chapter st t p info) =
     chapters st @ [\<lparr>title = t, start_time = current_time_ns st,
       end_time = current_time_ns st + py_int (float_mul (duration info) 1000000000)\<rparr>]"
  "concat_file (add_chapter st t p info) =
     concat_file st @ [''file '' @ [squote] @ replace bslash ''/'' p @ [squote, newline]]"
  "printed (add_chapter st t p info) = printed st"
  "analysis_ref (add_chapter st t p info) = analysis_ref st"
  by (simp_all add: add_chapter_def Let_def)

lemma timeline_inv_add_chapter: "timeline_inv st \<Longrightarrow> timeline_inv (add_chapter st t p info)"
  by (simp add: timeline_inv_def add_chapter_simps contiguous_from_snoc)
     (simp add: timeline_end_def)

lemma timeline_inv_update:
  "timeline_inv (st\<lparr>analysis_ref := r\<rparr>) = timeline_inv st"
  "timeline_inv (st\<lparr>printed := ms\<rparr>) = timeline_inv st"
  by (simp_all add: timeline_inv_def)

text \<open>The two ways an iteration lets the loop go on.\<close>

lemma process_line_Inr:
  assumes "process_line e dir st line = Inr st'"
  shows "(\<not> found_line e dir line \<and>
            st' = st\<lparr>printed := printed st @ [WarningNotFound (fst (parse_line line))]\<rparr>) \<or>
         (found_line e dir line \<and>
            (\<exists>info r.
               get_file_info (ffprobe e) (path_join dir (fst (parse_line line))) = Inr info \<and>
               st' = add_chapter (st\<lparr>analysis_ref := r\<rparr>) (snd (parse_line line))
                        (path_join dir (fst (parse_line line))) info))"
proof (cases "found_line e dir line")
  case False
  with assms show ?thesis by (simp add: process_line_def found_line_def Let_def)
next
  case True
  with assms obtain info where
    info: "get_file_info (ffprobe e) (path_join dir (fst (parse_line line))) = Inr info"
    by (auto simp: process_line_def found_line_def Let_def split: sum.splits failure.splits)
  show ?thesis
  proof (cases "analysis_ref st")
    case None
    with assms True info show ?thesis
      by (auto simp: process_line_def found_line_def Let_def)
  next
    case (Some ref)
    with assms True info
    have "st' = add_chapter st (snd (parse_line line))
        (path_join dir (fst (parse_line line))) info"
      by (auto simp: process_line_def found_line_def Let_def split: if_splits)
    then have "st' = add_chapter (st\<lparr>analysis_ref := analysis_ref st\<rparr>) (snd (parse_line line))
        (path_join dir (fst (parse_line line))) info" by simp
    with True info show ?thesis by blast
  qed
qed


lemma process_lines_Cons_Inr:
  assumes "process_lines e dir st (l # ls) = Inr st'"
  obtains s where "process_line e dir st l = Inr s" and "process_lines e dir s ls = Inr st'"
  using assms by (auto split: sum.splits)

lemma timeline_inv_process_line:
  "process_line e dir st line = Inr st' \<Longrightarrow> timeline_inv st \<Longrightarrow> timeline_inv st'"
  by (drule process_line_Inr) (auto simp: timeline_inv_add_chapter timeline_inv_update)

lemma timeline_inv_process_lines:
  "process_lines e dir st ls = Inr st' \<Longrightarrow> timeline_inv st \<Longrightarrow> timeline_inv st'"
proof (induction ls arbitrary: st)
  case Nil
  then show ?case by simp
next
  case (Cons l ls)
  from Cons.prems(1) obtain s where "process_line e dir st l = Inr s"
    and "process_lines e dir s ls = Inr st'"
    by (rule process_lines_Cons_Inr)
  with Cons.IH Cons.prems(2) show ?case
    by (blast dest: timeline_inv_process_line)
qed

lemma timeline_inv_initial: "timeline_inv (initial_state n)"
  by (simp add: timeline_inv_def initial_state_def timeline_end_def)

text \<open>
  C3. For every run of the loop that ends without a fatal error, started from the initial
  state: when the chapter list is not empty its first chapter starts at 0, and every
  chapter ends where the next one starts.
\<close>

theorem timeline_contiguous:
  assumes "process_lines e dir (initial_state n) ls = Inr st"
  shows "(chapters st \<noteq> [] \<longrightarrow> start_time (hd (chapters st)) = 0) \<and>
         (\<forall>i. Suc i < length (chapters st) \<longrightarrow>
            end_time (chapters st ! i) = start_time (chapters st ! Suc i))"
proof -
  from assms have "timeline_inv st"
    by (rule timeline_inv_process_lines) (rule timeline_inv_initial)
  then have "contiguous_from 0 (chapters st)" by (simp add: timeline_inv_def)
  then show ?thesis
    by (auto intro: contiguous_from_hd contiguous_from_nth)
qed

text \<open>
  The example of the specification: files of 10, 2 and 7 seconds give the chapters
  0 to 10 s, 10 s to 12 s and 12 s to 19 s, in nanoseconds.
\<close>

theorem timeline_contiguous_witness:
  "process_lines (example_env three_files [] 0) ''in'' (initial_state 3)
     [''a.mp3'', ''b.mp3|Two'', ''c.mp3''] =
   Inr \<lparr>current_time_ns = 19000000000,
        analysis_ref = Some \<lparr>duration = 10, sample_rate = 44100, channels = 1\<rparr>,
        chapters = [\<lparr>title = ''a'', start_time = 0, end_time = 10000000000\<rparr>,
                    \<lparr>title = ''Two'', start_time = 10000000000, end_time = 12000000000\<rparr>,
                    \<lparr>title = ''c'', start_time = 12000000000, end_time = 19000000000\<rparr>],
        concat_file = [manifest_line ''in/a.mp3'', manifest_line ''in/b.mp3'',
                       manifest_line ''in/c.mp3''],
        printed = [ReadingOrderFile, FoundFiles 3]\<rparr> \<and>
   start_time
     (hd [\<lparr>title = ''a'', start_time = 0, end_time = 10000000000\<rparr>,
          \<lparr>title = ''Two'', start_time = 10000000000, end_time = 12000000000\<rparr>,
          \<lparr>title = ''c'', start_time = 12000000000, end_time = 19000000000\<rparr>]) = 0 \<and>
   end_time \<lparr>title = ''a'', start_time = 0, end_time = 10000000000\<rparr> =
   start_time \<lparr>title = ''Two'', start_time = 10000000000, end_time = 12000000000\<rparr> \<and>
   end_time \<lparr>title = ''Two'', start_time = 10000000000, end_time = 12000000000\<rparr> =
   start_time \<lparr>title = ''c'', start_time = 12000000000, end_time = 19000000000\<rparr>"
  using timeline_contiguous [OF three_run] three_run by simp

text \<open>
  C4, as stated: the duration in nanoseconds is the product rounded to the nearest
  integer. It fails for a file of 3/2048 s: the product is 1464843.75 (both factors and
  the product are exact in binary64), its rounding is 1464844, and the chapter ends at
  1464843.
\<close>

theorem chapter_times_rounding_counterexample:
  "process_line (example_env [(''in/a.mp3'', audio (3 / 2048) 44100 2)] [] 0) ''in''
     (initial_state 1) ''a.mp3'' =
   Inr \<lparr>current_time_ns = 1464843,
        analysis_ref = Some \<lparr>duration = 3 / 2048, sample_rate = 44100, channels = 2\<rparr>,
        chapters = [\<lparr>title = ''a'', start_time = 0, end_time = 1464843\<rparr>],
        concat_file = [manifest_line ''in/a.mp3''],
        printed = [ReadingOrderFile, FoundFiles 1]\<rparr> \<and>
   float_mul (3 / 2048) 1000000000 = 1464843 + 3 / 4 \<and>
   round_half_even (float_mul (3 / 2048) 1000000000) = 1464844 \<and>
   round (float_mul (3 / 2048) 1000000000) = (1464844 :: int)"
  by (simp add: loop_defs parse_facts float_facts round_half_even_def round_def)

text \<open>
  C4, amended. For every order line whose file is there and passes validation, the
  chapter appended has the title of the line, starts at the cursor and ends at the cursor
  plus the duration in nanoseconds, which is the float product of the duration in seconds
  and \<open>10\<^sup>9\<close> truncated towards zero (the floor of a non-negative product, the ceiling of a
  negative one); the cursor moves to that end. The same rule serves every line.
\<close>

theorem chapter_times_truncated:
  assumes "process_line e dir st line = Inr st'" and "found_line e dir line"
  shows "\<exists>info. get_file_info (ffprobe e) (path_join dir (fst (parse_line line))) = Inr info \<and>
           chapters st' = chapters st @
             [\<lparr>title = snd (parse_line line), start_time = current_time_ns st,
               end_time = current_time_ns st +
                 (if 0 \<le> float_mul (duration info) 1000000000
                  then \<lfloor>float_mul (duration info) 1000000000\<rfloor>
                  else \<lceil>float_mul (duration info) 1000000000\<rceil>)\<rparr>] \<and>
           current_time_ns st' = end_time (last (chapters st'))"
  using process_line_Inr [OF assms(1)] assms(2)
  by (auto simp: add_chapter_simps py_int_trunc)

theorem chapter_times_truncated_witness:
  "process_line (example_env [(''in/a.mp3'', audio (3 / 2) 44100 2)] [] 0) ''in''
     (initial_state 1) ''a.mp3'' =
   Inr \<lparr>current_time_ns = 1500000000,
        analysis_ref = Some \<lparr>duration = 3 / 2, sample_rate = 44100, channels = 2\<rparr>,
        chapters = [\<lparr>title = ''a'', start_time = 0, end_time = 1500000000\<rparr>],
        concat_file = [manifest_line ''in/a.mp3''],
        printed = [ReadingOrderFile, FoundFiles 1]\<rparr> \<and>
   found_line (example_env [(''in/a.mp3'', audio (3 / 2) 44100 2)] [] 0) ''in'' ''a.mp3'' \<and>
   get_file_info (ffprobe (example_env [(''in/a.mp3'', audio (3 / 2) 44100 2)] [] 0))
     ''in/a.mp3'' = Inr \<lparr>duration = 3 / 2, sample_rate = 44100, channels = 2\<rparr> \<and>
   \<lfloor>float_mul (3 / 2) 1000000000\<rfloor> = 1500000000"
  using chapter_times_truncated [OF half_step half_found] half_step half_found
  by (simp add: loop_defs float_facts)







text \<open>
  C10. When the loop ends without a fatal error, the manifest holds, in order, one line
  for each order line whose file is there: \<^verbatim>\<open>file '\<close>, the path with every backslash turned
  into a slash and no other character changed, \<^verbatim>\<open>'\<close> and the line end. A single quote in
  the path stays as it is: the line has two single quotes more than the path.
\<close>

theorem manifest_lines_unescaped:
  assumes "process_lines e dir st ls = Inr st'"
  shows "concat_file st' = concat_file st @
           map (\<lambda>l. manifest_line
                  (map (\<lambda>c. if c = bslash then CHR ''/'' else c)
                     (path_join dir (fst (parse_line l)))))
             (filter (found_line e dir) ls) \<and>
         count_list (manifest_line p) squote = count_list p squote + 2"
proof -
  have "concat_file st' = concat_file st @
           map (\<lambda>l. manifest_line
                  (map (\<lambda>c. if c = bslash then CHR ''/'' else c)
                     (path_join dir (fst (parse_line l)))))
             (filter (found_line e dir) ls)"
    using assms
  proof (induction ls arbitrary: st)
    case Nil
    then show ?case by simp
  next
    case (Cons l ls)
    from Cons.prems obtain s where s: "process_line e dir st l = Inr s"
      and rest: "process_lines e dir s ls = Inr st'"
      by (rule process_lines_Cons_Inr)
    from process_line_Inr [OF s] Cons.IH [OF rest] show ?case
      by (auto simp: add_chapter_simps replace_char_map manifest_line_def)
  qed
  moreover have "count_list (manifest_line p) squote = count_list p squote + 2"
    by (simp add: manifest_line_def squote_def newline_def)
  ultimately show ?thesis by simp
qed

text \<open>
  The file \<^verbatim>\<open>it's\1.mp3\<close> gives the manifest line \<^verbatim>\<open>file 'in/it's/1.mp3'\<close>, with three
  single quotes.
\<close>

theorem manifest_lines_unescaped_witness:
  "process_lines (example_env [(''in/'' @ quoted_name, audio 2 44100 1)] [] 0) ''in''
     (initial_state 1) [quoted_name] =
   Inr \<lparr>current_time_ns = 2000000000,
        analysis_ref = Some \<lparr>duration = 2, sample_rate = 44100, channels = 1\<rparr>,
        chapters = [\<lparr>title = ''it'' @ [squote] @ ''s'' @ [bslash] @ ''1'', start_time = 0,
                     end_time = 2000000000\<rparr>],
        concat_file =
          [''file '' @ [squote] @ ''in/it'' @ [squote] @ ''s/1.mp3'' @ [squote, newline]],
        printed = [ReadingOrderFile, FoundFiles 1]\<rparr> \<and>
   manifest_line (map (\<lambda>c. if c = bslash then CHR ''/'' else c) (''in/'' @ quoted_name)) =
     ''file '' @ [squote] @ ''in/it'' @ [squote] @ ''s/1.mp3'' @ [squote, newline] \<and>
   count_list (manifest_line (''in/'' @ quoted_name)) squote = 3"
  using manifest_lines_unescaped [OF quoted_run, of "''in/'' @ quoted_name"] quoted_run
  by (simp add: manifest_line_def quoted_name_def squote_def bslash_def)

subsection \<open>\<^verbatim>\<open>main\<close>\<close>









text \<open>
  C9. When every line of the order file is blank, the run exits with status 1 and the
  muxing tool is never invoked; when the checks before the loop pass, the last message
  printed is "No valid files found to process.", after the count of 0 files.
\<close>

theorem blank_order_file:
  assumes "readlines e (order_file a) = Some lines" and "\<forall>l\<in>set lines. strip l = []"
  shows "exit_code (main e a) = 1 \<and> join (main e a) = None \<and>
         (deps e = Available \<and> isdir e (input_dir a) \<and> isfile e (order_file a) \<and>
          (cover_given a \<longrightarrow> isfile e (the (cover a))) \<longrightarrow>
          stdout (main e a) = [ReadingOrderFile, FoundFiles 0, NoValidFiles])"
proof -
  from assms(2) have "filter (\<lambda>line. strip line \<noteq> []) lines = []"
    by (simp add: filter_empty_conv)
  with assms(1) show ?thesis
    by (auto simp: main_def early_exit_def Let_def initial_state_def)
qed

theorem blank_order_file_witness:
  "readlines (example_env [] [[newline], ''   '' @ [newline]] 0) (order_file example_args) =
     Some [[newline], ''   '' @ [newline]] \<and>
   strip [newline] = [] \<and> strip (''   '' @ [newline]) = [] \<and>
   deps (example_env [] [[newline], ''   '' @ [newline]] 0) = Available \<and>
   isdir (example_env [] [[newline], ''   '' @ [newline]] 0) (input_dir example_args) \<and>
   isfile (example_env [] [[newline], ''   '' @ [newline]] 0) (order_file example_args) \<and>
   \<not> cover_given example_args \<and>
   exit_code (main (example_env [] [[newline], ''   '' @ [newline]] 0) example_args) = 1 \<and>
   join (main (example_env [] [[newline], ''   '' @ [newline]] 0) example_args) = None \<and>
   stdout (main (example_env [] [[newline], ''   '' @ [newline]] 0) example_args) =
     [ReadingOrderFile, FoundFiles 0, NoValidFiles]"
proof -
  let ?e = "example_env [] [[newline], ''   '' @ [newline]] 0"
  have r: "readlines ?e (order_file example_args) = Some [[newline], ''   '' @ [newline]]"
    by (simp add: example_env_sel example_args_def)
  have b: "\<forall>l\<in>set [[newline], ''   '' @ [newline]]. strip l = []"
    by (simp add: strip_def is_space_def newline_def)
  from blank_order_file [OF r b] r show ?thesis
    by (simp add: example_env_sel example_args_def cover_given_def strip_def is_space_def
        newline_def)
qed

text \<open>
  C1, at the failing input. One sound file, and a muxing tool that exits with status 1:
  the program prints "Error running ffmpeg" and then ends normally, with exit status 0.
\<close>

theorem join_failure_exit_code:
  "exit_code (main (example_env [(''in/a.mp3'', audio 10 44100 1)] [''a.mp3'' @ [newline]] 1)
     example_args) = 0 \<and>
   stdout (main (example_env [(''in/a.mp3'', audio 10 44100 1)] [''a.mp3'' @ [newline]] 1)
     example_args) =
     [ReadingOrderFile, FoundFiles 1, GeneratingMetadata, JoiningFiles, ErrorRunningFfmpeg 1]"
  by (simp add: main_def example_env_sel example_args_def cover_given_def one_run Let_def
      strip_def is_space_def newline_def del: process_lines.simps)

text \<open>
  C2, at the failing input. Two files with sample rates 44100 and 48000: the run exits
  with status 1 inside the loop, and the manifest, already holding the line of the first
  file, is left on disk.
\<close>

theorem manifest_left_after_mismatch:
  "main (example_env [(''in/a.mp3'', audio 10 44100 1), (''in/b.mp3'', audio 2 48000 1)]
          [''a.mp3'' @ [newline], ''b.mp3|Two'' @ [newline]] 0) example_args =
   \<lparr>exit_code = 1,
    stdout = [ReadingOrderFile, FoundFiles 2, SampleRateMismatch ''b.mp3'' 44100 48000],
    concat_list_left = Some [''file '' @ [squote] @ ''in/a.mp3'' @ [squote, newline]],
    metadata_left = None, join = None\<rparr>"
  by (simp add: main_def example_env_sel example_args_def cover_given_def mismatch_run Let_def
      strip_def is_space_def newline_def manifest_line_def del: process_lines.simps)

end
